theory Spec2Isabelle
  imports Main "HOL-Library.Word"
begin

section \<open>Cosa/Event.hh: the event record\<close>

subsection \<open>Machine types\<close>

text \<open>
  The fixed-width integers of \<^verbatim>\<open>Cosa/Types.h\<close>. An \<^verbatim>\<open>int8_t\<close> is the same eight
  bits as a \<^verbatim>\<open>uint8_t\<close>, read in two's complement (\<open>sint\<close>) instead of unsigned
  (\<open>uint\<close>). A pointer (\<^verbatim>\<open>Handler*\<close>, \<^verbatim>\<open>void*\<close>) is an address of the platform's
  pointer width, which is the type parameter \<open>'p\<close> throughout (16 on the AVR targets);
  the null pointer is the address 0.
\<close>

type_synonym uint8_t = "8 word"
type_synonym int8_t = "8 word"
type_synonym uint16_t = "16 word"

text \<open>
  The integral conversions the compiler inserts. Converting to an unsigned type keeps
  the value modulo \<open>2 ^ 8\<close>; converting an out-of-range value to \<^verbatim>\<open>int8_t\<close> is reduced
  modulo \<open>2 ^ 8\<close> into the signed range (the rule GCC documents).
\<close>

definition int8_of_int :: "int \<Rightarrow> int8_t" where
  "int8_of_int n = word_of_int n"

definition int8_of_uint8 :: "uint8_t \<Rightarrow> int8_t" where
  "int8_of_uint8 t = int8_of_int (uint t)"

definition uint8_of_int8 :: "int8_t \<Rightarrow> uint8_t" where
  "uint8_of_int8 t = word_of_int (sint t)"

subsection \<open>Event types\<close>

definition QUEUE_MAX :: uint8_t where
  "QUEUE_MAX = 16"

text \<open>
  The anonymous enumeration of event types, one constant for each enumerator. An
  enumerator without an initialiser has the value of the one before it plus one.
\<close>

definition NULL_TYPE :: int where
  "NULL_TYPE = 0"

definition FALLING_TYPE :: int where
  "FALLING_TYPE = NULL_TYPE + 1"

definition RISING_TYPE :: int where
  "RISING_TYPE = FALLING_TYPE + 1"

definition CHANGE_TYPE :: int where
  "CHANGE_TYPE = RISING_TYPE + 1"

definition SAMPLE_REQUEST_TYPE :: int where
  "SAMPLE_REQUEST_TYPE = CHANGE_TYPE + 1"

definition SAMPLE_COMPLETED_TYPE :: int where
  "SAMPLE_COMPLETED_TYPE = SAMPLE_REQUEST_TYPE + 1"

definition WATCHDOG_TYPE :: int where
  "WATCHDOG_TYPE = SAMPLE_COMPLETED_TYPE + 1"

definition TIMEOUT_TYPE :: int where
  "TIMEOUT_TYPE = WATCHDOG_TYPE + 1"

definition BEGIN_TYPE :: int where
  "BEGIN_TYPE = TIMEOUT_TYPE + 1"

definition END_TYPE :: int where
  "END_TYPE = BEGIN_TYPE + 1"

definition RUN_TYPE :: int where
  "RUN_TYPE = END_TYPE + 1"

definition CONNECT_TYPE :: int where
  "CONNECT_TYPE = RUN_TYPE + 1"

definition DISCONNECT_TYPE :: int where
  "DISCONNECT_TYPE = CONNECT_TYPE + 1"

definition RECEIVE_REQUEST_TYPE :: int where
  "RECEIVE_REQUEST_TYPE = DISCONNECT_TYPE + 1"

definition RECEIVE_COMPLETED_TYPE :: int where
  "RECEIVE_COMPLETED_TYPE = RECEIVE_REQUEST_TYPE + 1"

definition SEND_REQUEST_TYPE :: int where
  "SEND_REQUEST_TYPE = RECEIVE_COMPLETED_TYPE + 1"

definition SEND_COMPLETED_TYPE :: int where
  "SEND_COMPLETED_TYPE = SEND_REQUEST_TYPE + 1"

definition OPEN_TYPE :: int where
  "OPEN_TYPE = SEND_COMPLETED_TYPE + 1"

definition CLOSE_TYPE :: int where
  "CLOSE_TYPE = OPEN_TYPE + 1"

definition READ_REQUEST_TYPE :: int where
  "READ_REQUEST_TYPE = CLOSE_TYPE + 1"

definition READ_COMPLETED_TYPE :: int where
  "READ_COMPLETED_TYPE = READ_REQUEST_TYPE + 1"

definition WRITE_REQUEST_TYPE :: int where
  "WRITE_REQUEST_TYPE = READ_COMPLETED_TYPE + 1"

definition WRITE_COMPLETED_TYPE :: int where
  "WRITE_COMPLETED_TYPE = WRITE_REQUEST_TYPE + 1"

definition COMMAND_REQUEST_TYPE :: int where
  "COMMAND_REQUEST_TYPE = WRITE_COMPLETED_TYPE + 1"

definition COMMAND_COMPLETED_TYPE :: int where
  "COMMAND_COMPLETED_TYPE = COMMAND_REQUEST_TYPE + 1"

definition SERVICE_REQUEST_TYPE :: int where
  "SERVICE_REQUEST_TYPE = COMMAND_COMPLETED_TYPE + 1"

definition SERVICE_RESPONSE_TYPE :: int where
  "SERVICE_RESPONSE_TYPE = SERVICE_REQUEST_TYPE + 1"

definition USER_TYPE :: int where
  "USER_TYPE = 64"

definition ERROR_TYPE :: int where
  "ERROR_TYPE = 255"

text \<open>The enumerators between \<open>NULL_TYPE\<close> and \<open>USER_TYPE\<close>, in the order of the source.\<close>

definition framework_types :: "int list" where
  "framework_types =
     [FALLING_TYPE, RISING_TYPE, CHANGE_TYPE,
      SAMPLE_REQUEST_TYPE, SAMPLE_COMPLETED_TYPE, WATCHDOG_TYPE,
      TIMEOUT_TYPE, BEGIN_TYPE, END_TYPE,
      RUN_TYPE, CONNECT_TYPE, DISCONNECT_TYPE,
      RECEIVE_REQUEST_TYPE, RECEIVE_COMPLETED_TYPE, SEND_REQUEST_TYPE,
      SEND_COMPLETED_TYPE, OPEN_TYPE, CLOSE_TYPE,
      READ_REQUEST_TYPE, READ_COMPLETED_TYPE, WRITE_REQUEST_TYPE,
      WRITE_COMPLETED_TYPE, COMMAND_REQUEST_TYPE, COMMAND_COMPLETED_TYPE,
      SERVICE_REQUEST_TYPE, SERVICE_RESPONSE_TYPE]"

subsection \<open>The class Event\<close>

text \<open>
  The three private fields, in the order of their declaration. The record leaves the
  type of the pointer open; the program's events are those of type \<open>'p Event_t\<close>,
  whose target is an address of \<open>'p\<close> bits.
\<close>

record 'ptr Event =
  m_type :: uint8_t
  m_target :: 'ptr
  m_value :: uint16_t

type_synonym 'p Event_t = "'p word Event"

text \<open>
  The constructor takes the type as an \<^verbatim>\<open>int8_t\<close> and initialises the unsigned field
  from it. It has no body and no way to fail.
\<close>

definition Event :: "int8_t \<Rightarrow> 'p::len word \<Rightarrow> uint16_t \<Rightarrow> 'p Event_t" where
  "Event type target value =
     \<lparr>m_type = uint8_of_int8 type, m_target = target, m_value = value\<rparr>"

text \<open>The constructor called with no argument: every parameter takes its default.\<close>

definition Event_default :: "'p::len Event_t" where
  "Event_default = Event (int8_of_int NULL_TYPE) 0 0"

text \<open>
  The member functions are not declared \<^verbatim>\<open>const\<close>, so each is modelled as a function
  from the object it is called on to its result and the object afterwards.
  \<open>get_type\<close> returns an \<^verbatim>\<open>int\<close>: the unsigned field is promoted, which keeps its value.
\<close>

definition get_type :: "'p::len Event_t \<Rightarrow> int \<times> 'p Event_t" where
  "get_type this = (uint (m_type this), this)"

definition get_target :: "'p::len Event_t \<Rightarrow> 'p word \<times> 'p Event_t" where
  "get_target this = (m_target this, this)"

definition get_value :: "'p::len Event_t \<Rightarrow> uint16_t \<times> 'p Event_t" where
  "get_value this = (m_value this, this)"

text \<open>
  \<open>get_env\<close> casts the 16-bit value to a pointer: the integer is zero-extended (or, on
  a narrower pointer, truncated) to the pointer width. Nothing is checked.
\<close>

definition get_env :: "'p::len Event_t \<Rightarrow> 'p word \<times> 'p Event_t" where
  "get_env this = (ucast (m_value this), this)"

subsection \<open>Handlers and dispatch\<close>

text \<open>
  \<open>Handler::on_event\<close> is virtual: which body runs is decided by the object the target
  points to, and the body is any code of the program. It is handed the type and the
  value by value. What it changes is the program's state: the event that is being
  dispatched, which a handler that holds a pointer to it can assign to (the class has
  the implicit public copy assignment), and the rest of the state, of type \<open>'w\<close>.
  The root class's own body is empty.
\<close>

type_synonym ('p, 'w) on_event_t =
  "uint8_t \<Rightarrow> uint16_t \<Rightarrow> 'p Event_t \<times> 'w \<Rightarrow> 'p Event_t \<times> 'w"

definition on_event :: "('p::len, 'w) on_event_t" where
  "on_event type value s = s"

text \<open>
  \<open>dispatch\<close> takes the handler objects of the program as a function from the address
  of a handler to the \<open>on_event\<close> of its class. It returns the event and the rest of
  the state as the call leaves them; it assigns nothing itself.
\<close>

definition dispatch ::
  "('p::len word \<Rightarrow> ('p, 'w) on_event_t) \<Rightarrow> 'p Event_t \<Rightarrow> 'w \<Rightarrow> 'p Event_t \<times> 'w" where
  "dispatch handlers this w =
     (if m_target this \<noteq> 0
      then handlers (m_target this) (m_type this) (m_value this) (this, w)
      else (this, w))"

text \<open>
  A handler subclass for the examples: its object holds a pointer to the event that
  is dispatched to it, and its \<open>on_event\<close> assigns the event \<open>Event(9, 0, 9)\<close> through
  that pointer. \<open>assigning_handlers\<close> is a program where every handler is of this class.
\<close>

definition assigning_on_event :: "('p::len, 'w) on_event_t" where
  "assigning_on_event type value s = (Event (int8_of_int 9) 0 9, snd s)"

definition assigning_handlers :: "16 word \<Rightarrow> (16, unit) on_event_t" where
  "assigning_handlers a = assigning_on_event"

subsection \<open>The queue\<close>

text \<open>
  Modelled from the spec: the class \<open>Queue\<close> of \<^verbatim>\<open>Cosa/Queue.hh\<close>, which is not among
  the sources. It is a bounded circular buffer of records with a fixed capacity, a
  write position, a read position and an occupancy count.
\<close>

record 'e Queue =
  capacity :: nat
  buffer :: "'e list"
  write_pos :: nat
  read_pos :: nat
  count :: nat

text \<open>
  Modelled from the spec: the queries \<open>available\<close>, \<open>is_full\<close> and \<open>is_empty\<close> of the
  missing class \<open>Queue\<close>, which read the occupancy count only.
\<close>

definition available :: "'e Queue \<Rightarrow> nat" where
  "available q = count q"

definition is_full :: "'e Queue \<Rightarrow> bool" where
  "is_full q = (\<not> count q < capacity q)"

definition is_empty :: "'e Queue \<Rightarrow> bool" where
  "is_empty q = (\<not> 0 < count q)"

text \<open>
  Modelled from the spec: \<open>enqueue\<close> of the missing class \<open>Queue\<close>. If the queue is not
  full it copies the record into the next free slot, advances the write position and
  counts the record, and returns success; on a full queue it fails and changes nothing.
\<close>

definition enqueue :: "'e \<Rightarrow> 'e Queue \<Rightarrow> bool \<times> 'e Queue" where
  "enqueue data q =
     (if is_full q then (False, q)
      else (True, q\<lparr>buffer := (buffer q)[write_pos q := data],
                     write_pos := (write_pos q + 1) mod capacity q,
                     count := count q + 1\<rparr>))"

text \<open>
  Modelled from the spec: \<open>dequeue\<close> of the missing class \<open>Queue\<close>. If the queue is not
  empty it copies the oldest record out, advances the read position, decrements the
  occupancy and returns success; otherwise it fails and leaves the output untouched.
\<close>

definition dequeue :: "'e \<Rightarrow> 'e Queue \<Rightarrow> bool \<times> 'e \<times> 'e Queue" where
  "dequeue data q =
     (if is_empty q then (False, data, q)
      else (True, buffer q ! read_pos q,
            q\<lparr>read_pos := (read_pos q + 1) mod capacity q,
              count := count q - 1\<rparr>))"

text \<open>
  Modelled from the spec: the definition of the static member \<open>Event::queue\<close>, which is
  in no source file here; the header's comment says it has size \<open>QUEUE_MAX\<close>. It starts
  empty, its slots zeroed.
\<close>

definition queue_initial :: "'p::len Event_t Queue" where
  "queue_initial =
     \<lparr>capacity = unat QUEUE_MAX, buffer = replicate (unat QUEUE_MAX) Event_default,
      write_pos = 0, read_pos = 0, count = 0\<rparr>"

subsection \<open>Pushing events\<close>

text \<open>
  The static \<open>push\<close> works on the process-wide queue, which is passed in and returned.
  It builds a local event, converting its unsigned type to the constructor's signed
  parameter, and returns what \<open>enqueue\<close> returns.
\<close>

definition push ::
  "uint8_t \<Rightarrow> 'p::len word \<Rightarrow> uint16_t \<Rightarrow> 'p Event_t Queue \<Rightarrow> bool \<times> 'p Event_t Queue" where
  "push type target value queue =
     (let event = Event (int8_of_uint8 type) target value
      in enqueue event queue)"

text \<open>The overload with an environment pointer casts the pointer to \<^verbatim>\<open>uint16_t\<close>.\<close>

definition push_env ::
  "uint8_t \<Rightarrow> 'p::len word \<Rightarrow> 'p word \<Rightarrow> 'p Event_t Queue \<Rightarrow> bool \<times> 'p Event_t Queue" where
  "push_env type target env queue = push type target (ucast env) queue"

subsection \<open>Runs of the program on the queue\<close>

text \<open>
  The calls a program can make on the process-wide queue: the two producers' entry
  points and the consumer's dequeue. \<open>run\<close> performs a sequence of them.
\<close>

datatype 'ptr call =
    Push uint8_t 'ptr uint16_t
  | Push_env uint8_t 'ptr 'ptr
  | Dequeue

fun step :: "'p::len word call \<Rightarrow> 'p Event_t Queue \<Rightarrow> 'p Event_t Queue" where
  "step (Push t h v) q = snd (push t h v q)"
| "step (Push_env t h env) q = snd (push_env t h env q)"
| "step Dequeue q = snd (snd (dequeue Event_default q))"

fun run :: "'p::len word call list \<Rightarrow> 'p Event_t Queue \<Rightarrow> 'p Event_t Queue" where
  "run [] q = q"
| "run (c # cs) q = run cs (step c q)"

section \<open>Properties\<close>

subsection \<open>Auxiliary facts\<close>

text \<open>An event built from an unsigned type code holds exactly that code.\<close>

lemma Event_of_uint8:
  "Event (int8_of_uint8 t) h v = \<lparr>m_type = t, m_target = h, m_value = v\<rparr>"
  by (simp add: Event_def int8_of_uint8_def int8_of_int_def uint8_of_int8_def)

text \<open>The unsigned field the constructor stores, for any signed argument.\<close>

lemma uint_uint8_of_int8: "uint (uint8_of_int8 t) = sint t mod 256"
  unfolding uint8_of_int8_def uint_word_of_int by simp

text \<open>The value of an \<^verbatim>\<open>int8_t\<close> lies between \<open>-128\<close> and 127.\<close>

lemma sint_int8_range: "- 128 \<le> sint (t :: int8_t) \<and> sint t < 128"
  using sint_ge [of t] sint_lt [of t] by simp

text \<open>Narrowing a pointer to 16 bits, and widening 16 bits to a pointer.\<close>

lemma unat_narrow: "unat (ucast (env :: 'p::len word) :: uint16_t) = unat env mod 2 ^ 16"
  by (simp add: unsigned_ucast_eq take_bit_eq_mod)

lemma narrow_of_nat: "(ucast (env :: 'p::len word) :: uint16_t) = of_nat (unat env mod 2 ^ 16)"
  by (simp add: word_unat_eq_iff unat_narrow unat_of_nat)

lemma unat_widen: "unat (ucast (v :: uint16_t) :: 'p::len word) = unat v mod 2 ^ LENGTH('p)"
  by (simp add: unsigned_ucast_eq take_bit_eq_mod)

text \<open>With the root class's empty \<open>on_event\<close> at every address, dispatch does nothing.\<close>

lemma dispatch_root_handler: "dispatch (\<lambda>a. on_event) e w = (e, w)"
  by (simp add: dispatch_def on_event_def)

text \<open>Every call keeps the occupancy within the capacity, and the capacity fixed.\<close>

lemma step_bounded:
  "count q \<le> capacity q \<Longrightarrow>
   count (step c q) \<le> capacity (step c q) \<and> capacity (step c q) = capacity q"
  by (cases c)
    (auto simp: push_def push_env_def enqueue_def dequeue_def is_full_def is_empty_def)

lemma run_bounded:
  "count q \<le> capacity q \<Longrightarrow>
   count (run cs q) \<le> capacity q \<and> capacity (run cs q) = capacity q"
proof (induction cs arbitrary: q)
  case Nil
  then show ?case by simp
next
  case (Cons c cs)
  from step_bounded [OF Cons.prems, of c] Cons.IH [of "step c q"]
  show ?case by simp
qed

subsection \<open>The claims\<close>

text \<open>
  C4, as the code has it. For every event constructed with type \<open>t\<close>, target \<open>h\<close> and
  value \<open>v\<close>, the accessors leave the object as it was; \<open>get_target\<close> and \<open>get_value\<close>
  return exactly \<open>h\<close> and \<open>v\<close>; \<open>get_type\<close> returns the unsigned byte that was stored,
  which is \<open>t\<close> modulo 256: \<open>t\<close> itself when \<open>t\<close> is not negative, and \<open>t + 256\<close> when
  it is. A type code given as an unsigned byte is returned exactly.
\<close>

theorem accessors_return_stored_fields:
  fixes t :: int8_t and u :: uint8_t and h :: "'p::len word" and v :: uint16_t
  shows "get_type (Event t h v) = (sint t mod 256, Event t h v)
       \<and> (0 \<le> sint t \<longrightarrow> fst (get_type (Event t h v)) = sint t)
       \<and> (sint t < 0 \<longrightarrow> fst (get_type (Event t h v)) = sint t + 256)
       \<and> fst (get_type (Event (int8_of_uint8 u) h v)) = uint u
       \<and> get_target (Event t h v) = (h, Event t h v)
       \<and> get_value (Event t h v) = (v, Event t h v)"
proof -
  have stored: "fst (get_type (Event t h v)) = sint t mod 256"
    by (simp add: get_type_def Event_def uint_uint8_of_int8)
  have same: "sint t mod 256 = sint t" if "0 \<le> sint t"
    using that sint_int8_range [of t] by simp
  have wrapped: "sint t mod 256 = sint t + 256" if "sint t < 0"
  proof -
    have "(sint t + 256) mod 256 = sint t + 256"
      using that sint_int8_range [of t] by (intro mod_pos_pos_trivial) simp_all
    then show ?thesis by simp
  qed
  have unsigned: "fst (get_type (Event (int8_of_uint8 u) h v)) = uint u"
    by (simp add: Event_of_uint8 get_type_def)
  have "get_type (Event t h v) = (sint t mod 256, Event t h v)"
    using stored by (simp add: get_type_def)
  moreover have "get_target (Event t h v) = (h, Event t h v)"
    by (simp add: get_target_def Event_def)
  moreover have "get_value (Event t h v) = (v, Event t h v)"
    by (simp add: get_value_def Event_def)
  ultimately show ?thesis
    using stored same wrapped unsigned by simp
qed

theorem accessors_return_stored_fields_witness:
  "0 \<le> sint (int8_of_int 5) \<and> fst (get_type (Event (int8_of_int 5) (0 :: 16 word) 0)) = 5
   \<and> sint (int8_of_int (- 3)) < 0
   \<and> fst (get_type (Event (int8_of_int (- 3)) (0 :: 16 word) 0)) = 253"
  using accessors_return_stored_fields [of "int8_of_int 5" "0 :: 16 word" 0]
    accessors_return_stored_fields [of "int8_of_int (- 3)" "0 :: 16 word" 0]
  by (simp add: int8_of_int_def)

text \<open>
  C4 as stated fails for a negative type: the event constructed with type \<open>-1\<close>
  returns 255 from \<open>get_type\<close>, not \<open>-1\<close>.
\<close>

theorem accessors_negative_type_counterexample:
  "sint (int8_of_int (- 1)) = - 1
   \<and> fst (get_type (Event (int8_of_int (- 1)) (0 :: 16 word) 0)) = 255
   \<and> fst (get_type (Event (int8_of_int (- 1)) (0 :: 16 word) 0)) \<noteq> sint (int8_of_int (- 1))"
proof -
  have arg: "sint (int8_of_int (- 1)) = - 1"
    by (simp add: int8_of_int_def)
  have "fst (get_type (Event (int8_of_int (- 1)) (0 :: 16 word) 0))
      = sint (int8_of_int (- 1)) mod 256"
    by (simp add: get_type_def Event_def uint_uint8_of_int8)
  then have "fst (get_type (Event (int8_of_int (- 1)) (0 :: 16 word) 0)) = 255"
    by (simp add: arg)
  with arg show ?thesis by simp
qed

text \<open>
  C1. Dispatching an event whose target is not null calls the target's \<open>on_event\<close>
  exactly once, with the event's type and value: the state afterwards is the one that
  single call leaves, and a handler that logs its calls logs exactly one entry.
  Dispatching an event whose target is null changes nothing.
\<close>

theorem dispatch_calls_target_once:
  fixes e :: "'p::len Event_t"
  shows "(m_target e \<noteq> 0 \<longrightarrow>
            dispatch handlers e w = handlers (m_target e) (m_type e) (m_value e) (e, w)
          \<and> snd (dispatch (\<lambda>h t v s. (fst s, snd s @ [(h, t, v)])) e calls)
              = calls @ [(m_target e, m_type e, m_value e)])
       \<and> (m_target e = 0 \<longrightarrow> dispatch handlers e w = (e, w))"
  by (simp add: dispatch_def)

theorem dispatch_calls_target_once_witness:
  "dispatch (\<lambda>h t v s. (fst s, snd s @ [(h, t, v)]))
      \<lparr>m_type = 4, m_target = 256 :: 16 word, m_value = 7\<rparr> []
     = (\<lparr>m_type = 4, m_target = 256, m_value = 7\<rparr>, [(256, 4, 7)])
   \<and> dispatch (\<lambda>h t v s. (fst s, snd s @ [(h, t, v)]))
      \<lparr>m_type = 4, m_target = 0 :: 16 word, m_value = 7\<rparr> []
     = (\<lparr>m_type = 4, m_target = 0, m_value = 7\<rparr>, [])"
  using
    dispatch_calls_target_once [of "\<lparr>m_type = 4, m_target = 256 :: 16 word, m_value = 7\<rparr>"
      "\<lambda>h t v s. (fst s, snd s @ [(h, t, v)])" "[]" "[]"]
    dispatch_calls_target_once [of "\<lparr>m_type = 4, m_target = 0 :: 16 word, m_value = 7\<rparr>"
      "\<lambda>h t v s. (fst s, snd s @ [(h, t, v)])" "[]" "[]"]
  by simp

text \<open>
  C2. \<open>push type target value\<close> enqueues, on the process-wide queue, an event with
  exactly those three fields, and returns what the enqueue returns: it is the enqueue
  of that event, in its result and in the queue it leaves, and touches nothing else.
\<close>

theorem push_is_enqueue_of_event:
  fixes h :: "'p::len word"
  shows "push t h v q = enqueue \<lparr>m_type = t, m_target = h, m_value = v\<rparr> q
       \<and> fst (push t h v q) = fst (enqueue \<lparr>m_type = t, m_target = h, m_value = v\<rparr> q)
       \<and> fst (push t h v q) = (\<not> is_full q)
       \<and> snd (push t h v q) =
           (if fst (push t h v q)
            then q\<lparr>buffer := (buffer q)[write_pos q := \<lparr>m_type = t, m_target = h, m_value = v\<rparr>],
                   write_pos := (write_pos q + 1) mod capacity q,
                   count := count q + 1\<rparr>
            else q)"
  by (simp add: push_def Event_of_uint8 enqueue_def)

text \<open>
  C3. The capacity of the process-wide queue is \<open>QUEUE_MAX\<close>, which is 16, and after
  any sequence of pushes and dequeues from the initial state the capacity is still 16
  and the number of buffered events is at most 16.
\<close>

theorem queue_occupancy_bounded:
  fixes cs :: "'p::len word call list"
  shows "unat QUEUE_MAX = 16
       \<and> capacity (queue_initial :: 'p Event_t Queue) = unat QUEUE_MAX
       \<and> capacity (run cs queue_initial) = 16
       \<and> available (run cs queue_initial) \<le> 16"
  using run_bounded [of "queue_initial :: 'p Event_t Queue" cs]
  by (simp add: queue_initial_def QUEUE_MAX_def available_def)

text \<open>
  C5. The overload of \<open>push\<close> that takes an environment pointer is the scalar \<open>push\<close>
  of the pointer reduced modulo \<open>2 ^ 16\<close>: same result, same queue afterwards.
\<close>

theorem push_env_is_push_of_narrowed:
  fixes env :: "'p::len word"
  shows "push_env t h env q = push t h (of_nat (unat env mod 2 ^ 16)) q"
  by (simp only: push_env_def narrow_of_nat)

text \<open>
  C6. \<open>get_env\<close> returns the value field cast to a pointer, that is, what \<open>get_value\<close>
  returns, cast; its number is the value's, reduced to the pointer width, and on
  16-bit pointers it is the value itself. It leaves the object as it was, and has no
  failing case.
\<close>

theorem get_env_is_value_as_pointer:
  fixes e :: "'p::len Event_t" and e16 :: "16 Event_t"
  shows "get_env e = (ucast (fst (get_value e)), e)
       \<and> unat (fst (get_env e)) = unat (fst (get_value e)) mod 2 ^ LENGTH('p)
       \<and> get_env e16 = get_value e16"
  by (simp add: get_env_def get_value_def unat_widen)

text \<open>
  C7. Construction is a total function of its three arguments to an event: the target
  and the value are stored as given and the type modulo \<open>2 ^ 8\<close>. The event constructed
  with no argument has the null type, which is 0, a null target and the value 0.
\<close>

theorem default_event_is_null:
  fixes h :: "'p::len word"
  shows "(Event_default :: 'p Event_t) = \<lparr>m_type = 0, m_target = 0, m_value = 0\<rparr>
       \<and> fst (get_type (Event_default :: 'p Event_t)) = NULL_TYPE
       \<and> NULL_TYPE = 0
       \<and> fst (get_target (Event_default :: 'p Event_t)) = 0
       \<and> fst (get_value (Event_default :: 'p Event_t)) = 0
       \<and> m_target (Event t h v) = h
       \<and> m_value (Event t h v) = v
       \<and> uint (m_type (Event t h v)) = sint t mod 256"
proof -
  have default: "(Event_default :: 'p Event_t) = \<lparr>m_type = 0, m_target = 0, m_value = 0\<rparr>"
    by (simp add: Event_default_def Event_def NULL_TYPE_def int8_of_int_def uint8_of_int8_def)
  have fields: "m_target (Event t h v) = h \<and> m_value (Event t h v) = v
      \<and> uint (m_type (Event t h v)) = sint t mod 256"
    by (simp add: Event_def uint_uint8_of_int8)
  from fields show ?thesis
    by (simp add: default NULL_TYPE_def get_type_def get_target_def get_value_def)
qed

text \<open>
  C8, as the code has it. No member function of an event assigns a field. The object
  after \<open>get_type\<close>, \<open>get_target\<close>, \<open>get_value\<close> and \<open>get_env\<close> equals the object
  before. \<open>dispatch\<close> leaves the event as it was when the target is null, and otherwise
  as the target's \<open>on_event\<close> leaves it: unchanged whenever that handler does not
  itself assign to the event.
\<close>

theorem member_functions_assign_no_field:
  fixes e :: "'p::len Event_t"
  shows "snd (get_type e) = e
       \<and> snd (get_target e) = e
       \<and> snd (get_value e) = e
       \<and> snd (get_env e) = e
       \<and> (m_target e = 0 \<longrightarrow> fst (dispatch handlers e w) = e)
       \<and> (m_target e \<noteq> 0 \<longrightarrow>
            fst (dispatch handlers e w)
              = fst (handlers (m_target e) (m_type e) (m_value e) (e, w)))
       \<and> (fst (handlers (m_target e) (m_type e) (m_value e) (e, w)) = e \<longrightarrow>
            fst (dispatch handlers e w) = e)"
  by (simp add: get_type_def get_target_def get_value_def get_env_def dispatch_def)

theorem member_functions_assign_no_field_witness:
  "m_target \<lparr>m_type = 4, m_target = 0 :: 16 word, m_value = 7\<rparr> = 0
   \<and> fst (dispatch assigning_handlers \<lparr>m_type = 4, m_target = 0, m_value = 7\<rparr> ())
       = \<lparr>m_type = 4, m_target = 0, m_value = 7\<rparr>
   \<and> m_target \<lparr>m_type = 4, m_target = 512 :: 16 word, m_value = 7\<rparr> \<noteq> 0
   \<and> fst (on_event 4 7 (\<lparr>m_type = 4, m_target = 512 :: 16 word, m_value = 7\<rparr>, ()))
       = \<lparr>m_type = 4, m_target = 512, m_value = 7\<rparr>
   \<and> fst (dispatch (\<lambda>a. on_event) \<lparr>m_type = 4, m_target = 512 :: 16 word, m_value = 7\<rparr> ())
       = \<lparr>m_type = 4, m_target = 512, m_value = 7\<rparr>"
  using
    member_functions_assign_no_field
      [of "\<lparr>m_type = 4, m_target = 0 :: 16 word, m_value = 7\<rparr>" assigning_handlers "()"]
    member_functions_assign_no_field
      [of "\<lparr>m_type = 4, m_target = 512 :: 16 word, m_value = 7\<rparr>" "\<lambda>a. on_event" "()"]
  by (simp add: on_event_def)

text \<open>
  C8 as stated fails for \<open>dispatch\<close>: dispatched to a handler that assigns to the
  event, the event with type 4, target 512 and value 7 has type 9, a null target and
  value 9 afterwards.
\<close>

theorem dispatch_changes_event_counterexample:
  "fst (dispatch assigning_handlers \<lparr>m_type = 4, m_target = 512, m_value = 7\<rparr> ())
     = \<lparr>m_type = 9, m_target = 0, m_value = 9\<rparr>
   \<and> fst (dispatch assigning_handlers \<lparr>m_type = 4, m_target = 512, m_value = 7\<rparr> ())
     \<noteq> \<lparr>m_type = 4, m_target = 512, m_value = 7\<rparr>"
  by (simp add: dispatch_def assigning_handlers_def assigning_on_event_def
      Event_def int8_of_int_def uint8_of_int8_def)

text \<open>
  C9. The null type is 0; the framework's types, from the pin edges to the service
  response, are 1 to 26, each strictly between 0 and 64; the user range starts at
  \<open>USER_TYPE\<close>, which is 64; \<open>ERROR_TYPE\<close> is 255.
\<close>

theorem event_type_codes:
  "NULL_TYPE = 0
   \<and> framework_types = [1..26]
   \<and> (\<forall>c \<in> set framework_types. 0 < c \<and> c < 64)
   \<and> USER_TYPE = 64
   \<and> ERROR_TYPE = 255"
  unfolding framework_types_def
  by (simp add: NULL_TYPE_def FALLING_TYPE_def RISING_TYPE_def CHANGE_TYPE_def
      SAMPLE_REQUEST_TYPE_def SAMPLE_COMPLETED_TYPE_def WATCHDOG_TYPE_def
      TIMEOUT_TYPE_def BEGIN_TYPE_def END_TYPE_def
      RUN_TYPE_def CONNECT_TYPE_def DISCONNECT_TYPE_def
      RECEIVE_REQUEST_TYPE_def RECEIVE_COMPLETED_TYPE_def SEND_REQUEST_TYPE_def
      SEND_COMPLETED_TYPE_def OPEN_TYPE_def CLOSE_TYPE_def
      READ_REQUEST_TYPE_def READ_COMPLETED_TYPE_def WRITE_REQUEST_TYPE_def
      WRITE_COMPLETED_TYPE_def COMMAND_REQUEST_TYPE_def COMMAND_COMPLETED_TYPE_def
      SERVICE_REQUEST_TYPE_def SERVICE_RESPONSE_TYPE_def USER_TYPE_def ERROR_TYPE_def
      upto.simps)

theorem event_type_codes_witness:
  "SERVICE_RESPONSE_TYPE \<in> set framework_types
   \<and> 0 < SERVICE_RESPONSE_TYPE \<and> SERVICE_RESPONSE_TYPE < 64"
proof -
  have mem: "SERVICE_RESPONSE_TYPE \<in> set framework_types"
    by (simp add: framework_types_def)
  from event_type_codes have "\<forall>c \<in> set framework_types. 0 < c \<and> c < 64"
    by blast
  with mem show ?thesis by blast
qed

text \<open>
  C10. A type byte survives the constructor's signed parameter. An event constructed
  from an integer between 0 and 255 has that integer as its type, and so has the
  event that \<open>push\<close> builds from an unsigned byte and enqueues. \<open>ERROR_TYPE\<close> is the
  case in point: as an \<^verbatim>\<open>int8_t\<close> it is \<open>-1\<close>, and \<open>get_type\<close> returns 255 again.
\<close>

theorem type_byte_round_trips:
  fixes h :: "'p::len word"
  shows "(0 \<le> n \<and> n \<le> 255 \<longrightarrow> fst (get_type (Event (int8_of_int n) h v)) = n)
       \<and> fst (get_type (Event (int8_of_uint8 t) h v)) = uint t
       \<and> push t h v q = enqueue (Event (int8_of_uint8 t) h v) q
       \<and> sint (int8_of_int ERROR_TYPE) = - 1
       \<and> fst (get_type (Event (int8_of_int ERROR_TYPE) h v)) = ERROR_TYPE"
proof -
  have byte: "fst (get_type (Event (int8_of_int k) h v)) = k" if "0 \<le> k" "k \<le> 255" for k
    using that
    by (simp add: Event_def int8_of_int_def uint8_of_int8_def get_type_def uint_word_of_int)
  have "0 \<le> n \<and> n \<le> 255 \<longrightarrow> fst (get_type (Event (int8_of_int n) h v)) = n"
    using byte [of n] by blast
  moreover have "fst (get_type (Event (int8_of_uint8 t) h v)) = uint t"
    by (simp add: Event_of_uint8 get_type_def)
  moreover have "push t h v q = enqueue (Event (int8_of_uint8 t) h v) q"
    by (simp add: push_def)
  moreover have "sint (int8_of_int ERROR_TYPE) = - 1"
    by (simp add: int8_of_int_def ERROR_TYPE_def)
  moreover have "fst (get_type (Event (int8_of_int ERROR_TYPE) h v)) = ERROR_TYPE"
    using byte [of ERROR_TYPE] by (simp add: ERROR_TYPE_def)
  ultimately show ?thesis by blast
qed

theorem type_byte_round_trips_witness:
  "(0::int) \<le> 200 \<and> (200::int) \<le> 255
   \<and> fst (get_type (Event (int8_of_int 200) (0 :: 16 word) 0)) = 200"
  using type_byte_round_trips [of 200 "0 :: 16 word" 0]
  by simp

end
